theory Spec2Isabelle
  imports Complex_Main
begin

section \<open>Adjacency matrices\<close>

text \<open>
  The four entry points take a two-dimensional numpy array of integers. It is modelled
  as the list of its rows; \<open>shape0\<close> and \<open>shape1\<close> are \<open>A.shape[0]\<close> and
  \<open>A.shape[1]\<close>, \<open>entry A i j\<close> is \<open>A[i, j]\<close>. A numpy array is rectangular:
  \<open>rectangular\<close> says so and is part of every hypothesis about a well-formed input.
\<close>

type_synonym ndarray = "int list list"

definition shape0 :: "ndarray \<Rightarrow> nat" where
  "shape0 A = length A"

definition shape1 :: "ndarray \<Rightarrow> nat" where
  "shape1 A = (case A of [] \<Rightarrow> 0 | r # _ \<Rightarrow> length r)"

definition entry :: "ndarray \<Rightarrow> nat \<Rightarrow> nat \<Rightarrow> int" where
  "entry A i j = A ! i ! j"

definition rectangular :: "ndarray \<Rightarrow> bool" where
  "rectangular A = list_all (\<lambda>r. length r = shape1 A) A"

text \<open>\<open>(A == A.T).all()\<close>, evaluated only once the array is known to be square.\<close>

definition is_symmetric :: "ndarray \<Rightarrow> bool" where
  "is_symmetric A =
     list_all (\<lambda>i. list_all (\<lambda>j. entry A i j = entry A j i) [0..<shape1 A]) [0..<shape0 A]"

definition zero_one :: "ndarray \<Rightarrow> bool" where
  "zero_one A = list_all (list_all (\<lambda>e. e = 0 \<or> e = 1)) A"

text \<open>A valid input of the specification: a square symmetric 0/1 matrix.\<close>

definition valid_matrix :: "ndarray \<Rightarrow> bool" where
  "valid_matrix A =
     (rectangular A \<and> shape0 A = shape1 A \<and> is_symmetric A \<and> zero_one A)"

section \<open>Decimal rendering of integers\<close>

text \<open>Python's \<open>str\<close> on an integer, as the f-strings of the source use it.\<close>

definition digit_char :: "nat \<Rightarrow> char" where
  "digit_char d = ''0123456789'' ! d"

fun str_nat :: "nat \<Rightarrow> string" where
  "str_nat n = (if n < 10 then [digit_char n] else str_nat (n div 10) @ [digit_char (n mod 10)])"

declare str_nat.simps [simp del]

definition str_int :: "int \<Rightarrow> string" where
  "str_int i = (if i < 0 then CHR ''-'' # str_nat (nat (- i)) else str_nat (nat i))"

section \<open>The optimisation model handed to the solver\<close>

text \<open>
  The source builds a gurobipy \<open>Model\<close>: variables with a type, constraints with a
  name, an optional objective. The model is data here, one constructor per call of the
  source, and its meaning is given by \<open>eval\<close>, \<open>holds\<close> and \<open>feasible\<close>.
  A variable is the family name of \<open>addVars\<close> with its index tuple: \<open>x[i]\<close> is
  \<open>Xv [i]\<close>, \<open>x[i, p]\<close> is \<open>Xv [i, p]\<close>, \<open>w[j1, j2, p, q]\<close> is
  \<open>Wv [j1, j2, p, q]\<close>, \<open>f[i, j, p]\<close> is \<open>Fv [i, j, p]\<close>.
\<close>

datatype var = Xv "nat list" | Wv "nat list" | Fv "nat list"

datatype vtype = BINARY | CONTINUOUS

datatype expr =
    Num real
  | Ref var
  | Add expr expr
  | Sub expr expr
  | Mul expr expr

datatype sense = LE | GE | EQ

datatype constr =
    Constr string expr sense expr
  | Indicator string var real expr sense expr

record gmodel =
  model_name :: string
  params :: "(string \<times> int) list"
  vars :: "(var \<times> vtype) list"
  objective :: "expr option"
  constrs :: "constr list"

definition quicksum :: "expr list \<Rightarrow> expr" where
  "quicksum es = foldr Add es (Num 0)"

type_synonym assignment = "var \<Rightarrow> real"

fun eval :: "assignment \<Rightarrow> expr \<Rightarrow> real" where
  "eval a (Num c) = c"
| "eval a (Ref v) = a v"
| "eval a (Add e1 e2) = eval a e1 + eval a e2"
| "eval a (Sub e1 e2) = eval a e1 - eval a e2"
| "eval a (Mul e1 e2) = eval a e1 * eval a e2"

fun compare :: "sense \<Rightarrow> real \<Rightarrow> real \<Rightarrow> bool" where
  "compare LE l r = (l \<le> r)"
| "compare GE l r = (l \<ge> r)"
| "compare EQ l r = (l = r)"

text \<open>
  An indicator constraint \<open>addGenConstrIndicator(v, b, lhs sense rhs)\<close> binds only
  when the trigger variable has the value \<open>b\<close>.
\<close>

fun holds :: "assignment \<Rightarrow> constr \<Rightarrow> bool" where
  "holds a (Constr nm l s r) = compare s (eval a l) (eval a r)"
| "holds a (Indicator nm v b l s r) = (a v = b \<longrightarrow> compare s (eval a l) (eval a r))"

text \<open>A binary variable is 0 or 1; a continuous one is created with \<open>lb=0\<close>.\<close>

fun var_ok :: "assignment \<Rightarrow> var \<times> vtype \<Rightarrow> bool" where
  "var_ok a (v, BINARY) = (a v = 0 \<or> a v = 1)"
| "var_ok a (v, CONTINUOUS) = (0 \<le> a v)"

definition feasible :: "gmodel \<Rightarrow> assignment \<Rightarrow> bool" where
  "feasible m a = (list_all (var_ok a) (vars m) \<and> list_all (holds a) (constrs m))"

definition objval :: "gmodel \<Rightarrow> assignment \<Rightarrow> real" where
  "objval m a = (case objective m of None \<Rightarrow> 0 | Some e \<Rightarrow> eval a e)"

section \<open>Exceptions, and the indicator call of the solver library\<close>

text \<open>
  The exceptions a call can raise: a failed \<open>assert\<close> with its message, the
  \<open>TypeError\<close> of the solver library on an argument it does not take, and the
  \<open>AttributeError\<close> of reading \<open>.X\<close> when the solver left no assignment.
\<close>

datatype error = AssertionError string | TypeError | AttributeError

text \<open>
  Modelled from the spec: the solver library (gurobipy) is not part of the repository.
  Its indicator call takes a linear constraint as the consequence (section 6:
  \<open>add_indicator_constraint(trigger_variable, trigger_value, consequence: linear
  constraint)\<close>); the call of the source, \<open>addGenConstrIndicator\<close>, raises
  \<open>TypeError\<close> on a body that is not linear and adds nothing to the model. An
  expression is linear when its degree is at most 1, where the degree of a product is
  the sum of the degrees of its factors: the product of two expressions that both hold
  a variable is quadratic.
\<close>

fun degree :: "expr \<Rightarrow> nat" where
  "degree (Num c) = 0"
| "degree (Ref v) = 1"
| "degree (Add e1 e2) = max (degree e1) (degree e2)"
| "degree (Sub e1 e2) = max (degree e1) (degree e2)"
| "degree (Mul e1 e2) = degree e1 + degree e2"

definition addGenConstrIndicator ::
  "string \<Rightarrow> var \<Rightarrow> real \<Rightarrow> expr \<Rightarrow> sense \<Rightarrow> expr \<Rightarrow> gmodel \<Rightarrow> error + gmodel" where
  "addGenConstrIndicator nm v b l s r m =
     (if degree l \<le> 1 \<and> degree r \<le> 1
      then Inr (m\<lparr>constrs := constrs m @ [Indicator nm v b l s r]\<rparr>)
      else Inl TypeError)"

section \<open>The solver as a collaborator\<close>

text \<open>
  \<open>model.optimize()\<close> is the external solver. It is a parameter of every entry point:
  a function from the submitted model to the status it leaves in \<open>model.status\<close> and
  the assignment it leaves in the \<open>.X\<close> attributes, if any. Reading \<open>.X\<close> when the
  solver left no assignment raises \<open>AttributeError\<close>.
\<close>

datatype status =
    LOADED | OPTIMAL | INFEASIBLE | INF_OR_UNBD | UNBOUNDED | CUTOFF
  | ITERATION_LIMIT | NODE_LIMIT | TIME_LIMIT | SOLUTION_LIMIT | INTERRUPTED
  | NUMERIC | SUBOPTIMAL | INPROGRESS | USER_OBJ_LIMIT | WORK_LIMIT | MEM_LIMIT

type_synonym outcome = "status \<times> assignment option"

type_synonym solver = "gmodel \<Rightarrow> outcome"

text \<open>
  What a run of a correct solver on model \<open>m\<close> guarantees: an assignment it leaves is
  feasible, \<open>INFEASIBLE\<close> is reported only for a model with no feasible assignment, and
  \<open>OPTIMAL\<close> comes with an assignment whose objective no feasible assignment exceeds
  (all objectives of the source are maximised).
\<close>

definition sound_run :: "gmodel \<Rightarrow> outcome \<Rightarrow> bool" where
  "sound_run m r =
     ((\<forall>a. snd r = Some a \<longrightarrow> feasible m a) \<and>
      (fst r = INFEASIBLE \<longrightarrow> (\<forall>a. \<not> feasible m a)) \<and>
      (fst r = OPTIMAL \<longrightarrow> (\<exists>a. snd r = Some a \<and> (\<forall>b. feasible m b \<longrightarrow> objval m b \<le> objval m a))))"

text \<open>A solver that decides: it reports \<open>INFEASIBLE\<close> on every model without a feasible assignment.\<close>

definition decides :: "gmodel \<Rightarrow> outcome \<Rightarrow> bool" where
  "decides m r = ((\<forall>a. \<not> feasible m a) \<longrightarrow> fst r = INFEASIBLE)"

section \<open>Results\<close>

text \<open>
  Every entry point returns a message string or a dictionary:
  \<open>{"PDS": S, "size": len(S)}\<close>, \<open>{"community": c, "size": len(c)}\<close>, or the
  dictionary from the labels \<open>1..k\<close> to the member lists, kept in insertion order.
\<close>

datatype result =
    Message string
  | PDS_dict "nat list" nat
  | Community_dict "nat list" nat
  | Communities_dict "(nat \<times> nat list) list"

text \<open>
  A call returns its result, or the exception it raises, together with the list of the
  models it built and submitted to the solver, in order.
\<close>

type_synonym run = "(error + result) \<times> gmodel list"

section \<open>The max-community models\<close>

text \<open>
  The local expressions of \<open>find_max_community\<close>, named as in the source:
  \<open>d_S\<close>, \<open>d_not_S\<close>, \<open>S_size\<close>, \<open>complement_size\<close>.
\<close>

definition d_S :: "ndarray \<Rightarrow> nat \<Rightarrow> nat \<Rightarrow> expr" where
  "d_S A n u =
     quicksum (map (\<lambda>v. Mul (Num (real_of_int (entry A u v))) (Ref (Xv [v])))
                   (filter (\<lambda>v. u \<noteq> v) [0..<n]))"

definition d_not_S :: "ndarray \<Rightarrow> nat \<Rightarrow> nat \<Rightarrow> expr" where
  "d_not_S A n u =
     quicksum (map (\<lambda>v. Mul (Num (real_of_int (entry A u v))) (Sub (Num 1) (Ref (Xv [v]))))
                   (filter (\<lambda>v. u \<noteq> v) [0..<n]))"

definition S_size :: "nat \<Rightarrow> expr" where
  "S_size n = quicksum (map (\<lambda>v. Ref (Xv [v])) [0..<n])"

definition complement_size :: "nat \<Rightarrow> expr" where
  "complement_size n = Sub (Num (real n)) (S_size n)"

definition size_constraints :: "nat \<Rightarrow> constr list" where
  "size_constraints n =
     [Constr ''min_size_S'' (quicksum (map (\<lambda>i. Ref (Xv [i])) [0..<n])) GE (Num 2),
      Constr ''max_size_S'' (quicksum (map (\<lambda>i. Ref (Xv [i])) [0..<n])) LE (Num (real n - 1))]"

text \<open>
  The model of \<open>find_max_community\<close> before its loop over the vertices: the
  variables, the objective and the two size constraints.
\<close>

definition max_community_base :: "nat \<Rightarrow> gmodel" where
  "max_community_base n =
     (let V = [0..<n] in
      \<lparr> model_name = ''MaxCommunity'',
        params = [(''Threads'', 4)],
        vars = map (\<lambda>i. (Xv [i], BINARY)) V,
        objective = Some (quicksum (map (\<lambda>i. Ref (Xv [i])) V)),
        constrs = size_constraints n \<rparr>)"

text \<open>
  The loop \<open>for u in V\<close> of both max-community entry points: each round passes
  \<open>d_S * complement_size >= d_not_S * (S_size - 1)\<close> to \<open>addGenConstrIndicator\<close>
  with the trigger \<open>x[u] = 1\<close>, and the first call that raises ends the loop.
\<close>

fun add_pds_constraints :: "ndarray \<Rightarrow> nat \<Rightarrow> nat list \<Rightarrow> gmodel \<Rightarrow> error + gmodel" where
  "add_pds_constraints A n [] m = Inr m"
| "add_pds_constraints A n (u # us) m =
     (case addGenConstrIndicator (''pds_constraint_'' @ str_nat u) (Xv [u]) 1
             (Mul (d_S A n u) (complement_size n)) GE
             (Mul (d_not_S A n u) (Sub (S_size n) (Num 1))) m of
        Inl e \<Rightarrow> Inl e
      | Inr m' \<Rightarrow> add_pds_constraints A n us m')"

definition max_community_model :: "ndarray \<Rightarrow> error + gmodel" where
  "max_community_model A =
     (let n = shape0 A in add_pds_constraints A n [0..<n] (max_community_base n))"

text \<open>The flow constraints of \<open>find_connected_max_community\<close>, with \<open>root = 0\<close>.\<close>

definition flow_conservation :: "ndarray \<Rightarrow> nat \<Rightarrow> nat \<Rightarrow> constr" where
  "flow_conservation A n i =
     Constr (''flow_conservation_'' @ str_nat i)
       (quicksum (map (\<lambda>j. Ref (Fv [j, i])) (filter (\<lambda>j. entry A j i = 1) [0..<n])))
       EQ
       (quicksum (map (\<lambda>j. Ref (Fv [i, j])) (filter (\<lambda>j. entry A i j = 1) [0..<n])))"

definition flow_capacity :: "ndarray \<Rightarrow> nat \<Rightarrow> nat \<Rightarrow> constr list" where
  "flow_capacity A i j =
     (if entry A i j = 1
      then [Constr (''flow_capacity_start_'' @ str_nat i @ ''_'' @ str_nat j)
              (Ref (Fv [i, j])) LE (Ref (Xv [i])),
            Constr (''flow_capacity_end_'' @ str_nat i @ ''_'' @ str_nat j)
              (Ref (Fv [i, j])) LE (Ref (Xv [j]))]
      else [])"

definition connectivity_constraints :: "ndarray \<Rightarrow> nat \<Rightarrow> constr list" where
  "connectivity_constraints A n =
     (let V = [0..<n]; root = 0 in
      [Constr ''root_in_community'' (Ref (Xv [root])) EQ (Num 1)]
      @ map (flow_conservation A n) (filter (\<lambda>i. i \<noteq> root) V)
      @ concat (map (\<lambda>i. concat (map (\<lambda>j. flow_capacity A i j) V)) V))"

definition connected_max_community_base :: "ndarray \<Rightarrow> nat \<Rightarrow> gmodel" where
  "connected_max_community_base A n =
     (let V = [0..<n] in
      \<lparr> model_name = ''Connected_Max_Community'',
        params = [(''OutputFlag'', 1)],
        vars = map (\<lambda>i. (Xv [i], BINARY)) V
               @ concat (map (\<lambda>i. map (\<lambda>j. (Fv [i, j], CONTINUOUS)) V) V),
        objective = Some (quicksum (map (\<lambda>i. Ref (Xv [i])) V)),
        constrs = size_constraints n @ connectivity_constraints A n \<rparr>)"

definition connected_max_community_model :: "ndarray \<Rightarrow> error + gmodel" where
  "connected_max_community_model A =
     (let n = shape0 A in add_pds_constraints A n [0..<n] (connected_max_community_base A n))"

section \<open>The k-community models\<close>

text \<open>
  The proportional density constraint of vertex \<open>i\<close> for the ordered pair of
  communities \<open>(p, q)\<close>, with the source's \<open>N_C\<close>, \<open>N_Cprime\<close> and \<open>correction\<close>.
\<close>

definition N_C :: "ndarray \<Rightarrow> nat \<Rightarrow> nat \<Rightarrow> nat \<Rightarrow> nat \<Rightarrow> expr" where
  "N_C A n i p q =
     quicksum (map (\<lambda>j1. Mul (Num (real_of_int (entry A i j1)))
                             (quicksum (map (\<lambda>j2. Ref (Wv [j1, j2, p, q])) [0..<n])))
                   [0..<n])"

definition N_Cprime :: "ndarray \<Rightarrow> nat \<Rightarrow> nat \<Rightarrow> nat \<Rightarrow> nat \<Rightarrow> expr" where
  "N_Cprime A n i p q =
     quicksum (map (\<lambda>l1. Mul (Num (real_of_int (entry A i l1)))
                             (quicksum (map (\<lambda>l2. Ref (Wv [l1, l2, q, p])) [0..<n])))
                   [0..<n])"

definition correction :: "ndarray \<Rightarrow> nat \<Rightarrow> nat \<Rightarrow> nat \<Rightarrow> expr" where
  "correction A n i q =
     quicksum (map (\<lambda>l. Mul (Ref (Xv [l, q])) (Num (real_of_int (entry A i l)))) [0..<n])"

definition density_constraint :: "ndarray \<Rightarrow> nat \<Rightarrow> nat \<Rightarrow> nat \<Rightarrow> nat \<Rightarrow> constr" where
  "density_constraint A n i p q =
     Indicator (''CpwrtCq_'' @ str_nat i @ ''_'' @ str_nat p @ ''_'' @ str_nat q) (Xv [i, p]) 1
       (N_C A n i p q) GE (Sub (N_Cprime A n i p q) (correction A n i q))"

definition density_constraints :: "ndarray \<Rightarrow> nat \<Rightarrow> nat \<Rightarrow> constr list" where
  "density_constraints A n k =
     concat (map (\<lambda>i. concat (map (\<lambda>p. concat (map (\<lambda>q.
       if p \<noteq> q then [density_constraint A n i p q] else []) [0..<k])) [0..<k])) [0..<n])"

text \<open>The three constraints that link \<open>w[j1, j2, p, q]\<close> to \<open>x[j1, p]\<close> and \<open>x[j2, q]\<close>.\<close>

definition link_suffix :: "nat \<Rightarrow> nat \<Rightarrow> nat \<Rightarrow> nat \<Rightarrow> string" where
  "link_suffix j1 j2 p q = str_nat j1 @ ''_'' @ str_nat j2 @ ''_'' @ str_nat p @ ''_'' @ str_nat q"

definition link_constraints :: "nat \<Rightarrow> nat \<Rightarrow> nat \<Rightarrow> nat \<Rightarrow> constr list" where
  "link_constraints j1 j2 p q =
     [Constr (''WlinkedtoX1_'' @ link_suffix j1 j2 p q)
        (Ref (Wv [j1, j2, p, q])) LE (Ref (Xv [j1, p])),
      Constr (''WlinkedtoX2_'' @ link_suffix j1 j2 p q)
        (Ref (Wv [j1, j2, p, q])) LE (Ref (Xv [j2, q])),
      Constr (''WlinkedtoX3_'' @ link_suffix j1 j2 p q)
        (Ref (Wv [j1, j2, p, q])) GE (Sub (Add (Ref (Xv [j1, p])) (Ref (Xv [j2, q]))) (Num 1))]"

definition all_link_constraints :: "nat \<Rightarrow> nat \<Rightarrow> constr list" where
  "all_link_constraints n k =
     concat (map (\<lambda>j1. concat (map (\<lambda>j2. concat (map (\<lambda>p. concat (map (\<lambda>q.
       link_constraints j1 j2 p q) [0..<k])) [0..<k])) [0..<n])) [0..<n])"

definition at_least_two :: "nat \<Rightarrow> nat \<Rightarrow> constr" where
  "at_least_two n p =
     Constr (''atLeastTwoinCi_'' @ str_nat p)
       (quicksum (map (\<lambda>i. Ref (Xv [i, p])) [0..<n])) GE (Num 2)"

definition exactly_one :: "nat \<Rightarrow> nat \<Rightarrow> constr" where
  "exactly_one k i =
     Constr (''everyvertexbelongsto1community_'' @ str_nat i)
       (quicksum (map (\<lambda>p. Ref (Xv [i, p])) [0..<k])) EQ (Num 1)"

definition k_vars :: "nat \<Rightarrow> nat \<Rightarrow> (var \<times> vtype) list" where
  "k_vars n k =
     concat (map (\<lambda>i. map (\<lambda>p. (Xv [i, p], BINARY)) [0..<k]) [0..<n])
     @ concat (map (\<lambda>j1. concat (map (\<lambda>j2. concat (map (\<lambda>p.
         map (\<lambda>q. (Wv [j1, j2, p, q], BINARY)) [0..<k]) [0..<k])) [0..<n])) [0..<n])"

definition k_constraints :: "ndarray \<Rightarrow> nat \<Rightarrow> nat \<Rightarrow> constr list" where
  "k_constraints A n k =
     density_constraints A n k
     @ all_link_constraints n k
     @ map (at_least_two n) [0..<k]
     @ map (exactly_one k) [0..<n]"

definition k_community_model :: "ndarray \<Rightarrow> nat \<Rightarrow> gmodel" where
  "k_community_model A k =
     (let n = shape0 A in
      \<lparr> model_name = ''k_community'',
        params = [],
        vars = k_vars n k,
        objective = None,
        constrs = k_constraints A n k \<rparr>)"

text \<open>
  The connectivity block of \<open>find_connected_k_community\<close> for community \<open>p\<close>:
  vertex 0 is the root of every community.
\<close>

definition flow_conservation_k :: "ndarray \<Rightarrow> nat \<Rightarrow> nat \<Rightarrow> nat \<Rightarrow> constr" where
  "flow_conservation_k A n p i =
     Constr (''flow_conservation_'' @ str_nat i @ ''_'' @ str_nat p)
       (quicksum (map (\<lambda>j. Ref (Fv [j, i, p])) (filter (\<lambda>j. entry A j i = 1) [0..<n])))
       EQ
       (quicksum (map (\<lambda>j. Ref (Fv [i, j, p])) (filter (\<lambda>j. entry A i j = 1) [0..<n])))"

definition flow_capacity_k :: "ndarray \<Rightarrow> nat \<Rightarrow> nat \<Rightarrow> nat \<Rightarrow> constr list" where
  "flow_capacity_k A p i j =
     (if entry A i j = 1
      then [Constr (''flow_capacity_start_'' @ str_nat i @ ''_'' @ str_nat j @ ''_'' @ str_nat p)
              (Ref (Fv [i, j, p])) LE (Ref (Xv [i, p])),
            Constr (''flow_capacity_end_'' @ str_nat i @ ''_'' @ str_nat j @ ''_'' @ str_nat p)
              (Ref (Fv [i, j, p])) LE (Ref (Xv [j, p]))]
      else [])"

definition root_in_community :: "nat \<Rightarrow> constr" where
  "root_in_community p =
     (let root = 0 in
      Constr (''root_in_community_'' @ str_nat p) (Ref (Xv [root, p])) EQ (Num 1))"

definition connectivity_constraints_k :: "ndarray \<Rightarrow> nat \<Rightarrow> nat \<Rightarrow> constr list" where
  "connectivity_constraints_k A n p =
     (let V = [0..<n]; root = 0 in
      [root_in_community p]
      @ map (flow_conservation_k A n p) (filter (\<lambda>i. i \<noteq> root) V)
      @ concat (map (\<lambda>i. concat (map (\<lambda>j. flow_capacity_k A p i j) V)) V))"

definition connected_k_community_model :: "ndarray \<Rightarrow> nat \<Rightarrow> gmodel" where
  "connected_k_community_model A k =
     (let n = shape0 A; V = [0..<n] in
      \<lparr> model_name = ''connected_k_community'',
        params = [],
        vars = k_vars n k
               @ concat (map (\<lambda>i. concat (map (\<lambda>j. map (\<lambda>p. (Fv [i, j, p], CONTINUOUS))
                   [0..<k]) V)) V),
        objective = None,
        constrs = k_constraints A n k
                  @ concat (map (connectivity_constraints_k A n) [0..<k]) \<rparr>)"

section \<open>The four entry points\<close>

text \<open>
  Each entry point first runs its two assertions, then its size checks, then builds its
  model (an exception raised while building ends the call before anything is
  submitted), submits it, and decodes \<open>x\<close> by the test \<open>x.X > 0.5\<close>.
\<close>

definition members :: "assignment \<Rightarrow> nat \<Rightarrow> nat list" where
  "members a n = filter (\<lambda>i. a (Xv [i]) > 1 / 2) [0..<n]"

definition members_k :: "assignment \<Rightarrow> nat \<Rightarrow> nat \<Rightarrow> nat list" where
  "members_k a n p = filter (\<lambda>i. a (Xv [i, p]) > 1 / 2) [0..<n]"

definition find_max_community :: "solver \<Rightarrow> ndarray \<Rightarrow> run" where
  "find_max_community solve A =
     (if shape0 A \<noteq> shape1 A then (Inl (AssertionError ''Adjacency matrix must be square.''), [])
      else if \<not> is_symmetric A
        then (Inl (AssertionError ''Adjacency matrix must be symmetric.''), [])
      else let n = shape0 A in
        if n < 3 then (Inr (Message ''Graph has less than 3 vertices.''), [])
        else (case max_community_model A of
                Inl e \<Rightarrow> (Inl e, [])
              | Inr m \<Rightarrow>
                  (let r = solve m in
                   if fst r = OPTIMAL
                   then (case snd r of
                           None \<Rightarrow> (Inl AttributeError, [m])
                         | Some a \<Rightarrow>
                             (let S = members a n in (Inr (PDS_dict S (length S)), [m])))
                   else (Inr (Message
                     ''Unexpected: No PDS found. Please check the model or graph input.''), [m]))))"

definition find_connected_max_community :: "solver \<Rightarrow> ndarray \<Rightarrow> run" where
  "find_connected_max_community solve A =
     (if shape0 A \<noteq> shape1 A then (Inl (AssertionError ''Adjacency matrix must be square.''), [])
      else if \<not> is_symmetric A
        then (Inl (AssertionError ''Adjacency matrix must be symmetric.''), [])
      else let n = shape0 A in
        if n < 3 then (Inr (Message ''Graph has less than 3 vertices.''), [])
        else (case connected_max_community_model A of
                Inl e \<Rightarrow> (Inl e, [])
              | Inr m \<Rightarrow>
                  (let r = solve m in
                   if fst r = OPTIMAL
                   then (case snd r of
                           None \<Rightarrow> (Inl AttributeError, [m])
                         | Some a \<Rightarrow>
                             (let community = members a n
                              in (Inr (Community_dict community (length community)), [m])))
                   else (Inr (Message
                     ''Unexpected: No PDS found. Please check the model or graph input.''), [m]))))"

definition communities :: "assignment \<Rightarrow> nat \<Rightarrow> nat \<Rightarrow> (nat \<times> nat list) list" where
  "communities a n k = map (\<lambda>p. (p + 1, members_k a n p)) [0..<k]"

definition find_k_community :: "solver \<Rightarrow> ndarray \<Rightarrow> int \<Rightarrow> run" where
  "find_k_community solve A k =
     (if shape0 A \<noteq> shape1 A then (Inl (AssertionError ''Adjacency matrix must be square.''), [])
      else if \<not> is_symmetric A
        then (Inl (AssertionError ''Adjacency matrix must be symmetric.''), [])
      else let n = shape0 A in
        if n < 4 then (Inr (Message ''The graph has less than 4 vertices.''), [])
        else if int n < 2 * k
          then (Inr (Message ''The number of vertices must be at least 2*k.''), [])
        else if k < 2 then (Inr (Message ''k must be at least 2.''), [])
        else let m = k_community_model A (nat k); r = solve m in
          if fst r = INFEASIBLE
          then (Inr (Message (''No '' @ str_int k @ ''-community exists.'')), [m])
          else (case snd r of
                  None \<Rightarrow> (Inl AttributeError, [m])
                | Some a \<Rightarrow> (Inr (Communities_dict (communities a n (nat k))), [m])))"

definition find_connected_k_community :: "solver \<Rightarrow> ndarray \<Rightarrow> int \<Rightarrow> run" where
  "find_connected_k_community solve A k =
     (if shape0 A \<noteq> shape1 A then (Inl (AssertionError ''Adjacency matrix must be square.''), [])
      else if \<not> is_symmetric A
        then (Inl (AssertionError ''Adjacency matrix must be symmetric.''), [])
      else let n = shape0 A in
        if n < 4 then (Inr (Message ''The graph has less than 4 vertices.''), [])
        else if int n < 2 * k
          then (Inr (Message ''The number of vertices must be at least 2*k.''), [])
        else if k < 2 then (Inr (Message ''k must be at least 2.''), [])
        else let m = connected_k_community_model A (nat k); r = solve m in
          if fst r = INFEASIBLE
          then (Inr (Message (''No connected '' @ str_int k @ ''-community exists.'')), [m])
          else (case snd r of
                  None \<Rightarrow> (Inl AttributeError, [m])
                | Some a \<Rightarrow> (Inr (Communities_dict (communities a n (nat k))), [m])))"

section \<open>Concrete graphs, assignments and solver runs\<close>

text \<open>The graphs of the specification's scenarios and of the repository's tests.\<close>

definition triangle :: ndarray where
  "triangle = [[0, 1, 1], [1, 0, 1], [1, 1, 0]]"

definition path2 :: ndarray where
  "path2 = [[0, 1], [1, 0]]"

definition two_edges :: ndarray where
  "two_edges = [[0, 1, 0, 0], [1, 0, 0, 0], [0, 0, 0, 1], [0, 0, 1, 0]]"

definition non_square :: ndarray where
  "non_square = [[0, 1, 0], [1, 0, 1]]"

definition non_symmetric :: ndarray where
  "non_symmetric = [[0, 1, 0], [0, 0, 1], [1, 0, 0]]"

text \<open>A run that ends with a status and no assignment, and one that leaves an assignment.\<close>

definition reporting :: "status \<Rightarrow> solver" where
  "reporting st m = (st, None)"

definition answering :: "status \<Rightarrow> assignment \<Rightarrow> solver" where
  "answering st a m = (st, Some a)"

definition K4 :: ndarray where
  "K4 = [[0, 1, 1, 1], [1, 0, 1, 1], [1, 1, 0, 1], [1, 1, 1, 0]]"

text \<open>Five vertices: the edges 0-1 and 2-3, and the isolated vertex 4.\<close>

definition two_edges_and_a_vertex :: ndarray where
  "two_edges_and_a_vertex =
     [[0, 1, 0, 0, 0], [1, 0, 0, 0, 0], [0, 0, 0, 1, 0], [0, 0, 1, 0, 0], [0, 0, 0, 0, 0]]"

text \<open>
  The assignment that puts exactly the vertices of \<open>S\<close> into the set of a max-community
  model (all flows 0), and the assignment of a k-community model that puts vertex \<open>i\<close>
  into community \<open>part ! i\<close>, with every \<open>w\<close> the product of its two \<open>x\<close>.
\<close>

fun chosen :: "nat list \<Rightarrow> assignment" where
  "chosen S (Xv [i]) = (if i \<in> set S then 1 else 0)"
| "chosen S v = 0"

fun labelled :: "nat list \<Rightarrow> assignment" where
  "labelled part (Xv [i, p]) = (if part ! i = p then 1 else 0)"
| "labelled part (Wv [j1, j2, p, q]) = (if part ! j1 = p \<and> part ! j2 = q then 1 else 0)"
| "labelled part v = 0"

section \<open>The properties the specification states of a result\<close>


text \<open>
  The vertices reachable from \<open>r\<close> along edges of \<open>A\<close> without leaving \<open>S\<close>;
  \<open>S\<close> is connected from \<open>r\<close> when all its vertices are.
\<close>

inductive_set reachable :: "ndarray \<Rightarrow> nat list \<Rightarrow> nat \<Rightarrow> nat set"
  for A :: ndarray and S :: "nat list" and r :: nat where
  start: "r \<in> set S \<Longrightarrow> r \<in> reachable A S r"
| step: "u \<in> reachable A S r \<Longrightarrow> v \<in> set S \<Longrightarrow> entry A u v = 1 \<Longrightarrow> v \<in> reachable A S r"

definition connected_from :: "ndarray \<Rightarrow> nat list \<Rightarrow> nat \<Rightarrow> bool" where
  "connected_from A S r = (set S \<subseteq> reachable A S r)"

section \<open>The partition blocks of the k-community models\<close>


section \<open>Facts about models and assignments\<close>

lemma eval_quicksum: "eval a (quicksum es) = sum_list (map (eval a) es)"
  by (induction es) (simp_all add: quicksum_def)

lemma feasible_holds: "feasible m a \<Longrightarrow> c \<in> set (constrs m) \<Longrightarrow> holds a c"
  by (simp add: feasible_def list_all_iff)

lemma feasible_var_ok: "feasible m a \<Longrightarrow> vt \<in> set (vars m) \<Longrightarrow> var_ok a vt"
  by (simp add: feasible_def list_all_iff)



lemma sum_two_le:
  fixes f :: "nat \<Rightarrow> real"
  assumes "2 \<le> k" and "\<And>p. p < k \<Longrightarrow> 0 \<le> f p"
  shows "f 0 + f 1 \<le> sum_list (map f [0..<k])"
proof -
  have "sum_list (map f [0..<k]) = sum f {0..<k}"
    by (simp add: interv_sum_list_conv_sum_set_nat)
  moreover have "sum f {0, 1} \<le> sum f {0..<k}"
    using assms by (intro sum_mono2) auto
  ultimately show ?thesis by simp
qed


subsection \<open>The k-community models\<close>

lemma x_in_k_vars: "i < n \<Longrightarrow> p < k \<Longrightarrow> (Xv [i, p], BINARY) \<in> set (k_vars n k)"
  by (simp add: k_vars_def image_iff)

lemma w_in_k_vars:
  "j1 < n \<Longrightarrow> j2 < n \<Longrightarrow> p < k \<Longrightarrow> q < k \<Longrightarrow> (Wv [j1, j2, p, q], BINARY) \<in> set (k_vars n k)"
  by (simp add: k_vars_def image_iff)

lemma link_in_k_constraints:
  "j1 < n \<Longrightarrow> j2 < n \<Longrightarrow> p < k \<Longrightarrow> q < k \<Longrightarrow>
   set (link_constraints j1 j2 p q) \<subseteq> set (k_constraints A n k)"
  by (fastforce simp: k_constraints_def all_link_constraints_def)

lemma exactly_one_in: "i < n \<Longrightarrow> exactly_one k i \<in> set (k_constraints A n k)"
  by (simp add: k_constraints_def)

lemma root_in:
  "p < k \<Longrightarrow> root_in_community p \<in> set (constrs (connected_k_community_model A k))"
  by (auto simp: connected_k_community_model_def Let_def connectivity_constraints_k_def)

lemma k_constraints_in_connected:
  "set (k_constraints A (shape0 A) k) \<subseteq> set (constrs (connected_k_community_model A k))"
  by (auto simp: connected_k_community_model_def Let_def)

lemma k_vars_in_connected:
  "set (k_vars (shape0 A) k) \<subseteq> set (vars (connected_k_community_model A k))"
  by (auto simp: connected_k_community_model_def Let_def)

lemma link_iff:
  assumes "a (Wv [j1, j2, p, q]) = 0 \<or> a (Wv [j1, j2, p, q]) = 1"
    and "a (Xv [j1, p]) = 0 \<or> a (Xv [j1, p]) = 1"
    and "a (Xv [j2, q]) = 0 \<or> a (Xv [j2, q]) = 1"
  shows "list_all (holds a) (link_constraints j1 j2 p q) \<longleftrightarrow>
         a (Wv [j1, j2, p, q]) = a (Xv [j1, p]) * a (Xv [j2, q])"
  using assms by (auto simp: link_constraints_def)

text \<open>
  Vertex 0 is required in every community and in exactly one: with two communities or
  more no assignment satisfies the connected k-community model.
\<close>

lemma connected_k_infeasible:
  assumes "2 \<le> k" and "0 < shape0 A"
  shows "\<not> feasible (connected_k_community_model A k) a"
proof
  let ?m = "connected_k_community_model A k"
  assume f: "feasible ?m a"
  have r0: "a (Xv [0, 0]) = 1" using feasible_holds [OF f root_in [of 0 k A]] assms
    by (simp add: root_in_community_def)
  have r1: "a (Xv [0, 1]) = 1" using feasible_holds [OF f root_in [of 1 k A]] assms
    by (simp add: root_in_community_def)
  have "exactly_one k 0 \<in> set (constrs ?m)"
    using exactly_one_in [of 0 "shape0 A" k A] k_constraints_in_connected assms by blast
  then have one: "sum_list (map (\<lambda>p. a (Xv [0, p])) [0..<k]) = 1"
    using feasible_holds [OF f] by (fastforce simp: exactly_one_def eval_quicksum comp_def)
  have nonneg: "0 \<le> a (Xv [0, p])" if "p < k" for p
  proof -
    have "(Xv [0, p], BINARY) \<in> set (vars ?m)"
      using x_in_k_vars [of 0 "shape0 A" p k] k_vars_in_connected that assms by blast
    then show ?thesis using feasible_var_ok [OF f] by fastforce
  qed
  have "a (Xv [0, 0]) + a (Xv [0, 1]) \<le> sum_list (map (\<lambda>p. a (Xv [0, p])) [0..<k])"
    using sum_two_le [of k "\<lambda>p. a (Xv [0, p])"] assms nonneg by simp
  with r0 r1 one show False by simp
qed





section \<open>Validation\<close>

lemma non_square_shape: "shape0 non_square \<noteq> shape1 non_square"
  by (simp add: non_square_def shape0_def shape1_def)

lemma non_symmetric_shape: "shape0 non_symmetric = shape1 non_symmetric"
  by (simp add: non_symmetric_def shape0_def shape1_def)

lemma non_symmetric_asym: "\<not> is_symmetric non_symmetric"
  by (simp add: is_symmetric_def non_symmetric_def shape0_def shape1_def entry_def upt_rec)

lemma path2_shape: "shape0 path2 = 2 \<and> shape1 path2 = 2"
  by (simp add: path2_def shape0_def shape1_def)

lemma path2_symmetric: "is_symmetric path2"
  by (simp add: is_symmetric_def path2_def shape0_def shape1_def entry_def upt_rec)

lemma triangle_shape: "shape0 triangle = 3 \<and> shape1 triangle = 3"
  by (simp add: triangle_def shape0_def shape1_def)

lemma triangle_symmetric: "is_symmetric triangle"
  by (simp add: is_symmetric_def triangle_def shape0_def shape1_def entry_def upt_rec)

lemma two_edges_shape: "shape0 two_edges = 4 \<and> shape1 two_edges = 4"
  by (simp add: two_edges_def shape0_def shape1_def)

lemma two_edges_symmetric: "is_symmetric two_edges"
  by (simp add: is_symmetric_def two_edges_def shape0_def shape1_def entry_def upt_rec)

text \<open>
  Claim C7. On a square symmetric matrix, each size check short-circuits. With fewer
  than 3 vertices both max-community entry points return the message
  "Graph has less than 3 vertices."; with \<open>n < 4\<close>, \<open>n < 2k\<close> or \<open>k < 2\<close> both
  k-community entry points return the message of the first check that fails, in the
  source's order. In each case no model was built or submitted to the solver: the list
  of submitted models is empty, whatever the solver is.
\<close>

theorem C7_size_checks_short_circuit:
  assumes "shape0 A = shape1 A" and "is_symmetric A"
  shows "(shape0 A < 3 \<longrightarrow>
            find_max_community solve A =
              (Inr (Message ''Graph has less than 3 vertices.''), []) \<and>
            find_connected_max_community solve A =
              (Inr (Message ''Graph has less than 3 vertices.''), [])) \<and>
         (shape0 A < 4 \<or> int (shape0 A) < 2 * k \<or> k < 2 \<longrightarrow>
            (\<exists>msg. find_k_community solve A k = (Inr (Message msg), []) \<and>
                   find_connected_k_community solve A k = (Inr (Message msg), []) \<and>
                   msg = (if shape0 A < 4 then ''The graph has less than 4 vertices.''
                          else if int (shape0 A) < 2 * k
                            then ''The number of vertices must be at least 2*k.''
                          else ''k must be at least 2.'')))"
  using assms
  by (auto simp: find_max_community_def find_connected_max_community_def
        find_k_community_def find_connected_k_community_def Let_def)

theorem C7_size_checks_short_circuit_witness:
  "find_max_community (reporting OPTIMAL) path2 =
     (Inr (Message ''Graph has less than 3 vertices.''), []) \<and>
   find_connected_max_community (reporting OPTIMAL) path2 =
     (Inr (Message ''Graph has less than 3 vertices.''), []) \<and>
   find_k_community (reporting OPTIMAL) triangle 2 =
     (Inr (Message ''The graph has less than 4 vertices.''), []) \<and>
   find_connected_k_community (reporting OPTIMAL) two_edges 3 =
     (Inr (Message ''The number of vertices must be at least 2*k.''), []) \<and>
   find_k_community (reporting OPTIMAL) two_edges 1 =
     (Inr (Message ''k must be at least 2.''), [])"
  using C7_size_checks_short_circuit [of path2 "reporting OPTIMAL" 2]
    C7_size_checks_short_circuit [of triangle "reporting OPTIMAL" 2]
    C7_size_checks_short_circuit [of two_edges "reporting OPTIMAL" 3]
    C7_size_checks_short_circuit [of two_edges "reporting OPTIMAL" 1]
    path2_shape path2_symmetric triangle_shape triangle_symmetric
    two_edges_shape two_edges_symmetric
  by auto

text \<open>
  Claim C8. A matrix that is not square, or is square and differs from its transpose,
  makes each of the four entry points fail with the assertion error of the check that
  failed (the source validates by \<open>assert\<close>; this is the specification's validation
  error). No result is returned, and no model was built or submitted to the solver.
\<close>

theorem C8_invalid_matrix_raises:
  "(shape0 A \<noteq> shape1 A \<longrightarrow>
      find_max_community solve A =
        (Inl (AssertionError ''Adjacency matrix must be square.''), []) \<and>
      find_connected_max_community solve A =
        (Inl (AssertionError ''Adjacency matrix must be square.''), []) \<and>
      find_k_community solve A k =
        (Inl (AssertionError ''Adjacency matrix must be square.''), []) \<and>
      find_connected_k_community solve A k =
        (Inl (AssertionError ''Adjacency matrix must be square.''), [])) \<and>
   (shape0 A = shape1 A \<and> \<not> is_symmetric A \<longrightarrow>
      find_max_community solve A =
        (Inl (AssertionError ''Adjacency matrix must be symmetric.''), []) \<and>
      find_connected_max_community solve A =
        (Inl (AssertionError ''Adjacency matrix must be symmetric.''), []) \<and>
      find_k_community solve A k =
        (Inl (AssertionError ''Adjacency matrix must be symmetric.''), []) \<and>
      find_connected_k_community solve A k =
        (Inl (AssertionError ''Adjacency matrix must be symmetric.''), []))"
  by (simp add: find_max_community_def find_connected_max_community_def
        find_k_community_def find_connected_k_community_def)

theorem C8_invalid_matrix_raises_witness:
  "shape0 non_square \<noteq> shape1 non_square \<and>
   find_max_community (reporting OPTIMAL) non_square =
     (Inl (AssertionError ''Adjacency matrix must be square.''), []) \<and>
   find_k_community (reporting OPTIMAL) non_square 2 =
     (Inl (AssertionError ''Adjacency matrix must be square.''), []) \<and>
   shape0 non_symmetric = shape1 non_symmetric \<and> \<not> is_symmetric non_symmetric \<and>
   find_connected_max_community (reporting OPTIMAL) non_symmetric =
     (Inl (AssertionError ''Adjacency matrix must be symmetric.''), []) \<and>
   find_connected_k_community (reporting OPTIMAL) non_symmetric 2 =
     (Inl (AssertionError ''Adjacency matrix must be symmetric.''), [])"
  using C8_invalid_matrix_raises [of non_square "reporting OPTIMAL" 2]
    C8_invalid_matrix_raises [of non_symmetric "reporting OPTIMAL" 2]
    non_square_shape non_symmetric_shape non_symmetric_asym
  by simp

section \<open>Evaluated facts about the concrete graphs\<close>

lemmas k_model_defs = feasible_def k_community_model_def Let_def shape0_def k_vars_def
  k_constraints_def density_constraints_def density_constraint_def N_C_def N_Cprime_def
  correction_def all_link_constraints_def link_constraints_def at_least_two_def exactly_one_def
  quicksum_def entry_def upt_rec

lemma two_edges_k_feasible: "feasible (k_community_model two_edges 2) (labelled [0, 0, 1, 1])"
  by (simp add: k_model_defs two_edges_def)

lemma two_edges_valid: "valid_matrix two_edges"
  by (simp add: valid_matrix_def rectangular_def zero_one_def two_edges_shape two_edges_symmetric)
     (simp add: two_edges_def shape1_def)

lemma str_int_2: "str_int 2 = ''2''"
  by (simp add: str_int_def str_nat.simps digit_char_def)

section \<open>The connected k-community model\<close>

text \<open>
  Claim C4. For a square symmetric 0/1 matrix and \<open>k\<close> passing the size checks
  (\<open>n \<ge> 4\<close>, \<open>n \<ge> 2k\<close>, \<open>k \<ge> 2\<close>), the model of
  \<open>find_connected_k_community\<close> contains the constraint \<open>x[0, p] = 1\<close> for every
  community \<open>p\<close> and the constraint that vertex 0 is in exactly one community, and no
  assignment satisfies it. So with a solver whose run is sound the entry point never
  returns a community mapping, and with a solver that reports the infeasibility it
  returns the message "No connected k-community exists." after submitting that one model.
\<close>

theorem C4_connected_k_model_infeasible:
  assumes "valid_matrix A" and "4 \<le> shape0 A" and "2 * k \<le> int (shape0 A)" and "2 \<le> k"
  shows "(\<forall>p<nat k. Constr (''root_in_community_'' @ str_nat p) (Ref (Xv [0, p])) EQ (Num 1)
              \<in> set (constrs (connected_k_community_model A (nat k)))) \<and>
         exactly_one (nat k) 0 \<in> set (constrs (connected_k_community_model A (nat k))) \<and>
         (\<forall>a. \<not> feasible (connected_k_community_model A (nat k)) a) \<and>
         (sound_run (connected_k_community_model A (nat k))
                    (solve (connected_k_community_model A (nat k))) \<longrightarrow>
            (\<forall>cs. fst (find_connected_k_community solve A k) \<noteq> Inr (Communities_dict cs))) \<and>
         (decides (connected_k_community_model A (nat k))
                  (solve (connected_k_community_model A (nat k))) \<longrightarrow>
            find_connected_k_community solve A k =
              (Inr (Message (''No connected '' @ str_int k @ ''-community exists.'')),
               [connected_k_community_model A (nat k)]))"
proof -
  let ?m = "connected_k_community_model A (nat k)"
  have k2: "2 \<le> nat k" and n0: "0 < shape0 A" using assms by simp_all
  have sq: "shape1 A = shape0 A" and sym: "is_symmetric A"
    using assms(1) by (simp_all add: valid_matrix_def)
  have inf: "\<not> feasible ?m a" for a using connected_k_infeasible [OF k2 n0] .
  have roots: "\<forall>p<nat k. Constr (''root_in_community_'' @ str_nat p) (Ref (Xv [0, p])) EQ (Num 1)
              \<in> set (constrs ?m)"
    using root_in [of _ "nat k" A] by (simp add: root_in_community_def)
  have one: "exactly_one (nat k) 0 \<in> set (constrs ?m)"
    using exactly_one_in [OF n0, of "nat k" A] k_constraints_in_connected by blast
  have run: "find_connected_k_community solve A k =
      (if fst (solve ?m) = INFEASIBLE
       then (Inr (Message (''No connected '' @ str_int k @ ''-community exists.'')), [?m])
       else (case snd (solve ?m) of
               None \<Rightarrow> (Inl AttributeError, [?m])
             | Some a \<Rightarrow> (Inr (Communities_dict (communities a (shape0 A) (nat k))), [?m])))"
    using assms sq sym by (simp add: find_connected_k_community_def Let_def)
  have never: "\<forall>cs. fst (find_connected_k_community solve A k) \<noteq> Inr (Communities_dict cs)"
    if "sound_run ?m (solve ?m)"
    using that inf by (auto simp: run sound_run_def split: option.splits)
  have msg: "find_connected_k_community solve A k =
              (Inr (Message (''No connected '' @ str_int k @ ''-community exists.'')), [?m])"
    if "decides ?m (solve ?m)"
    using that inf by (simp add: run decides_def)
  show ?thesis using roots one inf never msg by blast
qed

theorem C4_connected_k_model_infeasible_witness:
  "valid_matrix two_edges \<and> 4 \<le> shape0 two_edges \<and> 2 * 2 \<le> int (shape0 two_edges) \<and>
   sound_run (connected_k_community_model two_edges 2)
             (reporting INFEASIBLE (connected_k_community_model two_edges 2)) \<and>
   decides (connected_k_community_model two_edges 2)
           (reporting INFEASIBLE (connected_k_community_model two_edges 2)) \<and>
   find_connected_k_community (reporting INFEASIBLE) two_edges 2 =
     (Inr (Message ''No connected 2-community exists.''), [connected_k_community_model two_edges 2])"
proof -
  have sh: "4 \<le> shape0 two_edges" "2 * 2 \<le> int (shape0 two_edges)"
    by (simp_all add: two_edges_shape)
  note c4 = C4_connected_k_model_infeasible [OF two_edges_valid sh, of "reporting INFEASIBLE", simplified]
  have inf: "\<forall>a. \<not> feasible (connected_k_community_model two_edges 2) a" using c4 by blast
  have snd: "sound_run (connected_k_community_model two_edges 2)
             (reporting INFEASIBLE (connected_k_community_model two_edges 2))"
    using inf by (simp add: sound_run_def reporting_def)
  have dec: "decides (connected_k_community_model two_edges 2)
           (reporting INFEASIBLE (connected_k_community_model two_edges 2))"
    by (simp add: decides_def reporting_def)
  show ?thesis using two_edges_valid sh snd dec c4 by (simp add: str_int_2)
qed

text \<open>
  Claim C3. For the graph of two disjoint edges and \<open>k = 2\<close> the specification expects
  from \<open>find_connected_k_community\<close> the partition into the two edges, and the
  repository's own test of this graph expects a dictionary. The entry point cannot return
  it: its model is infeasible, so a sound run leaves no assignment, the result is never
  one of the two edge partitions, and when the solver reports the infeasibility the
  result is the message "No connected 2-community exists.".
\<close>

theorem C3_two_disjoint_edges_connected_k:
  assumes "sound_run (connected_k_community_model two_edges 2)
                     (solve (connected_k_community_model two_edges 2))"
  shows "fst (find_connected_k_community solve two_edges 2)
           \<noteq> Inr (Communities_dict [(1, [0, 1]), (2, [2, 3])]) \<and>
         fst (find_connected_k_community solve two_edges 2)
           \<noteq> Inr (Communities_dict [(1, [2, 3]), (2, [0, 1])]) \<and>
         (fst (solve (connected_k_community_model two_edges 2)) = INFEASIBLE \<longrightarrow>
            fst (find_connected_k_community solve two_edges 2) =
              Inr (Message ''No connected 2-community exists.''))"
proof -
  let ?m = "connected_k_community_model two_edges 2"
  have inf: "\<not> feasible ?m a" for a
    using connected_k_infeasible [of 2 two_edges] by (simp add: two_edges_shape)
  have none: "snd (solve ?m) = None"
    using assms inf by (cases "snd (solve ?m)") (auto simp: sound_run_def)
  have run: "find_connected_k_community solve two_edges 2 =
      (if fst (solve ?m) = INFEASIBLE
       then (Inr (Message ''No connected 2-community exists.''), [?m])
       else (Inl AttributeError, [?m]))"
    using two_edges_symmetric
    by (simp add: find_connected_k_community_def Let_def two_edges_shape none str_int_2)
  show ?thesis by (simp add: run)
qed

theorem C3_two_disjoint_edges_connected_k_witness:
  "sound_run (connected_k_community_model two_edges 2)
             (reporting INFEASIBLE (connected_k_community_model two_edges 2)) \<and>
   fst (find_connected_k_community (reporting INFEASIBLE) two_edges 2) =
     Inr (Message ''No connected 2-community exists.'') \<and>
   fst (find_connected_k_community (reporting INFEASIBLE) two_edges 2)
     \<noteq> Inr (Communities_dict [(1, [0, 1]), (2, [2, 3])])"
proof -
  have inf: "\<not> feasible (connected_k_community_model two_edges 2) a" for a
    using connected_k_infeasible [of 2 two_edges] by (simp add: two_edges_shape)
  have snd: "sound_run (connected_k_community_model two_edges 2)
             (reporting INFEASIBLE (connected_k_community_model two_edges 2))"
    using inf by (simp add: sound_run_def reporting_def)
  have "fst (reporting INFEASIBLE (connected_k_community_model two_edges 2)) = INFEASIBLE"
    by (simp add: reporting_def)
  then show ?thesis
    using C3_two_disjoint_edges_connected_k [of "reporting INFEASIBLE", OF snd] snd by simp
qed

section \<open>The k-community models: linking and partition\<close>



lemma two_edges_k_run:
  "find_k_community (answering OPTIMAL (labelled [0, 0, 1, 1])) two_edges 2 =
     (Inr (Communities_dict [(1, [0, 1]), (2, [2, 3])]), [k_community_model two_edges 2])"
  using two_edges_symmetric
  by (simp add: find_k_community_def Let_def two_edges_shape answering_def communities_def
        members_k_def upt_rec)


text \<open>
  Claim C9. For 0/1 values of \<open>w[j1, j2, p, q]\<close>, \<open>x[j1, p]\<close> and \<open>x[j2, q]\<close> the
  three linking constraints of the source hold together exactly when
  \<open>w = x[j1, p] * x[j2, q]\<close>; hence at every feasible assignment of a k-community
  model (connected or not) every \<open>w[v1, v2, p, q]\<close> is the product, that is the
  conjunction, of \<open>x[v1, p]\<close> and \<open>x[v2, q]\<close>.
\<close>

theorem C9_linking_is_product:
  "(a (Wv [j1, j2, p, q]) \<in> {0, 1} \<and> a (Xv [j1, p]) \<in> {0, 1} \<and> a (Xv [j2, q]) \<in> {0, 1} \<longrightarrow>
      (list_all (holds a) (link_constraints j1 j2 p q) \<longleftrightarrow>
       a (Wv [j1, j2, p, q]) = a (Xv [j1, p]) * a (Xv [j2, q]))) \<and>
   (feasible (k_community_model A k) a \<or> feasible (connected_k_community_model A k) a \<longrightarrow>
      (\<forall>v1<shape0 A. \<forall>v2<shape0 A. \<forall>p'<k. \<forall>q'<k.
         a (Wv [v1, v2, p', q']) = a (Xv [v1, p']) * a (Xv [v2, q'])))"
proof (intro conjI impI allI)
  assume "a (Wv [j1, j2, p, q]) \<in> {0, 1} \<and> a (Xv [j1, p]) \<in> {0, 1} \<and> a (Xv [j2, q]) \<in> {0, 1}"
  then show "list_all (holds a) (link_constraints j1 j2 p q) \<longleftrightarrow>
       a (Wv [j1, j2, p, q]) = a (Xv [j1, p]) * a (Xv [j2, q])"
    using link_iff [of a j1 j2 p q] by simp
next
  fix v1 v2 p' q'
  assume f: "feasible (k_community_model A k) a \<or> feasible (connected_k_community_model A k) a"
    and b: "v1 < shape0 A" "v2 < shape0 A" "p' < k" "q' < k"
  let ?n = "shape0 A"
  have vars: "list_all (var_ok a) (k_vars ?n k)" and cons: "list_all (holds a) (k_constraints A ?n k)"
    using f by (auto simp: feasible_def k_community_model_def connected_k_community_model_def Let_def)
  have w: "a (Wv [v1, v2, p', q']) = 0 \<or> a (Wv [v1, v2, p', q']) = 1"
    using vars w_in_k_vars [OF b] by (fastforce simp: list_all_iff)
  have x1: "a (Xv [v1, p']) = 0 \<or> a (Xv [v1, p']) = 1"
    using vars x_in_k_vars [OF b(1) b(3)] by (fastforce simp: list_all_iff)
  have x2: "a (Xv [v2, q']) = 0 \<or> a (Xv [v2, q']) = 1"
    using vars x_in_k_vars [OF b(2) b(4)] by (fastforce simp: list_all_iff)
  have "list_all (holds a) (link_constraints v1 v2 p' q')"
    using cons link_in_k_constraints [OF b, of A] by (auto simp: list_all_iff)
  then show "a (Wv [v1, v2, p', q']) = a (Xv [v1, p']) * a (Xv [v2, q'])"
    using link_iff [OF w x1 x2] by simp
qed
theorem C9_linking_is_product_witness:
  "labelled [0, 0, 1, 1] (Wv [0, 2, 0, 1]) = 1 \<and> labelled [0, 0, 1, 1] (Xv [0, 0]) = 1 \<and>
   labelled [0, 0, 1, 1] (Xv [2, 1]) = 1 \<and>
   list_all (holds (labelled [0, 0, 1, 1])) (link_constraints 0 2 0 1) \<and>
   feasible (k_community_model two_edges 2) (labelled [0, 0, 1, 1]) \<and>
   labelled [0, 0, 1, 1] (Wv [1, 3, 0, 1]) =
     labelled [0, 0, 1, 1] (Xv [1, 0]) * labelled [0, 0, 1, 1] (Xv [3, 1]) \<and>
   labelled [0, 0, 1, 1] (Wv [1, 3, 1, 1]) =
     labelled [0, 0, 1, 1] (Xv [1, 1]) * labelled [0, 0, 1, 1] (Xv [3, 1])"
  using C9_linking_is_product [of "labelled [0, 0, 1, 1]" 0 2 0 1 two_edges 2] two_edges_k_feasible
  by (simp add: two_edges_shape)





section \<open>Solver statuses at the interface of the k-community entry points\<close>

text \<open>
  Claim C10, as the code has it. In the two k-community entry points the status
  \<open>INFEASIBLE\<close> yields the tagged message "No k-community exists." ("No connected
  k-community exists."), which is no mapping. Every other status, \<open>TIME_LIMIT\<close>
  included, is not kept apart: the entry point decodes the assignment the solver left
  into a community mapping, and raises \<open>AttributeError\<close> when it left none.
\<close>

theorem C10_k_status_handling:
  assumes "shape0 A = shape1 A" and "is_symmetric A"
    and "4 \<le> shape0 A" and "2 * k \<le> int (shape0 A)" and "2 \<le> k"
  shows "(fst (solve (k_community_model A (nat k))) = INFEASIBLE \<longrightarrow>
            find_k_community solve A k =
              (Inr (Message (''No '' @ str_int k @ ''-community exists.'')),
               [k_community_model A (nat k)])) \<and>
         (fst (solve (k_community_model A (nat k))) \<noteq> INFEASIBLE \<longrightarrow>
            find_k_community solve A k =
              (case snd (solve (k_community_model A (nat k))) of
                 None \<Rightarrow> (Inl AttributeError, [k_community_model A (nat k)])
               | Some a \<Rightarrow> (Inr (Communities_dict (communities a (shape0 A) (nat k))),
                            [k_community_model A (nat k)]))) \<and>
         (fst (solve (connected_k_community_model A (nat k))) = INFEASIBLE \<longrightarrow>
            find_connected_k_community solve A k =
              (Inr (Message (''No connected '' @ str_int k @ ''-community exists.'')),
               [connected_k_community_model A (nat k)])) \<and>
         (fst (solve (connected_k_community_model A (nat k))) \<noteq> INFEASIBLE \<longrightarrow>
            find_connected_k_community solve A k =
              (case snd (solve (connected_k_community_model A (nat k))) of
                 None \<Rightarrow> (Inl AttributeError, [connected_k_community_model A (nat k)])
               | Some a \<Rightarrow> (Inr (Communities_dict (communities a (shape0 A) (nat k))),
                            [connected_k_community_model A (nat k)])))"
proof -
  have sq: "shape1 A = shape0 A" using assms(1) by simp
  show ?thesis
    using assms(2-5)
    by (simp add: find_k_community_def find_connected_k_community_def Let_def sq)
qed

lemma two_edges_time_limit_run:
  "find_k_community (answering TIME_LIMIT (labelled [0, 0, 1, 1])) two_edges 2 =
     (Inr (Communities_dict [(1, [0, 1]), (2, [2, 3])]), [k_community_model two_edges 2])"
  using two_edges_symmetric
  by (simp add: find_k_community_def Let_def two_edges_shape answering_def communities_def
        members_k_def upt_rec)

lemma two_edges_infeasible_run:
  "find_k_community (reporting INFEASIBLE) two_edges 2 =
     (Inr (Message ''No 2-community exists.''), [k_community_model two_edges 2])"
  using two_edges_symmetric
  by (simp add: find_k_community_def Let_def two_edges_shape reporting_def str_int_2)

theorem C10_k_status_handling_witness:
  "shape0 two_edges = shape1 two_edges \<and> is_symmetric two_edges \<and> 4 \<le> shape0 two_edges \<and>
   2 * 2 \<le> int (shape0 two_edges) \<and>
   fst (reporting INFEASIBLE (k_community_model two_edges (nat 2))) = INFEASIBLE \<and>
   find_k_community (reporting INFEASIBLE) two_edges 2 =
     (Inr (Message (''No '' @ str_int 2 @ ''-community exists.'')),
      [k_community_model two_edges (nat 2)]) \<and>
   fst (answering TIME_LIMIT (labelled [0, 0, 1, 1]) (k_community_model two_edges (nat 2)))
     \<noteq> INFEASIBLE \<and>
   find_k_community (answering TIME_LIMIT (labelled [0, 0, 1, 1])) two_edges 2 =
     (Inr (Communities_dict (communities (labelled [0, 0, 1, 1]) (shape0 two_edges) (nat 2))),
      [k_community_model two_edges (nat 2)])"
proof -
  have sh: "shape0 two_edges = shape1 two_edges" "4 \<le> shape0 two_edges"
    "2 * 2 \<le> int (shape0 two_edges)"
    by (simp_all add: two_edges_shape)
  have two: "(2::int) \<le> 2" by simp
  note inf = C10_k_status_handling [OF sh(1) two_edges_symmetric sh(2,3) two,
      of "reporting INFEASIBLE"]
  note lim = C10_k_status_handling [OF sh(1) two_edges_symmetric sh(2,3) two,
      of "answering TIME_LIMIT (labelled [0, 0, 1, 1])"]
  have st1: "fst (reporting INFEASIBLE (k_community_model two_edges (nat 2))) = INFEASIBLE"
    by (simp add: reporting_def)
  have st2: "fst (answering TIME_LIMIT (labelled [0, 0, 1, 1]) (k_community_model two_edges (nat 2)))
     \<noteq> INFEASIBLE"
    and sol: "snd (answering TIME_LIMIT (labelled [0, 0, 1, 1]) (k_community_model two_edges (nat 2)))
      = Some (labelled [0, 0, 1, 1])"
    by (simp_all add: answering_def)
  have r1: "find_k_community (reporting INFEASIBLE) two_edges 2 =
     (Inr (Message (''No '' @ str_int 2 @ ''-community exists.'')),
      [k_community_model two_edges (nat 2)])"
    using inf st1 by blast
  have r2: "find_k_community (answering TIME_LIMIT (labelled [0, 0, 1, 1])) two_edges 2 =
     (Inr (Communities_dict (communities (labelled [0, 0, 1, 1]) (shape0 two_edges) (nat 2))),
      [k_community_model two_edges (nat 2)])"
    using lim st2 sol by simp
  show ?thesis using sh two_edges_symmetric st1 st2 r1 r2 by blast
qed

text \<open>
  The claim as stated fails: a run that ends \<open>TIME_LIMIT\<close> with an assignment makes
  \<open>find_k_community\<close> return a community mapping, the same result as a run that
  ends \<open>OPTIMAL\<close> with that assignment.
\<close>

theorem C10_time_limit_counterexample:
  "fst (find_k_community (answering TIME_LIMIT (labelled [0, 0, 1, 1])) two_edges 2) =
     Inr (Communities_dict [(1, [0, 1]), (2, [2, 3])]) \<and>
   fst (find_k_community (answering TIME_LIMIT (labelled [0, 0, 1, 1])) two_edges 2) =
     fst (find_k_community (answering OPTIMAL (labelled [0, 0, 1, 1])) two_edges 2)"
  using two_edges_time_limit_run two_edges_k_run
  by simp

section \<open>The indicator constraints\<close>

lemma degree_quicksum_le:
  "\<forall>e\<in>set es. degree e \<le> d \<Longrightarrow> degree (quicksum es) \<le> d"
  by (induction es) (auto simp: quicksum_def)

lemma degree_quicksum_one:
  assumes "es \<noteq> []" and "\<forall>e\<in>set es. degree e = 1"
  shows "degree (quicksum es) = 1"
proof (cases es)
  case Nil
  with assms show ?thesis by simp
next
  case (Cons e es')
  have "degree (quicksum es') \<le> 1"
    using assms(2) Cons by (intro degree_quicksum_le) simp
  moreover have "degree (quicksum es) = max (degree e) (degree (quicksum es'))"
    using Cons by (simp add: quicksum_def)
  moreover have "degree e = 1" using assms(2) Cons by simp
  ultimately show ?thesis by simp
qed

lemma degree_S_size: "0 < n \<Longrightarrow> degree (S_size n) = 1"
  unfolding S_size_def by (rule degree_quicksum_one) auto

lemma degree_complement_size: "0 < n \<Longrightarrow> degree (complement_size n) = 1"
  by (simp add: complement_size_def degree_S_size)

lemma degree_d_S:
  assumes "2 \<le> n"
  shows "degree (d_S A n u) = 1"
proof -
  have "\<exists>v<n. u \<noteq> v"
  proof (cases "u = 0")
    case True then show ?thesis using assms by (intro exI [of _ 1]) simp
  next
    case False then show ?thesis using assms by (intro exI [of _ 0]) simp
  qed
  then have "filter (\<lambda>v. u \<noteq> v) [0..<n] \<noteq> []"
    by (auto simp: filter_empty_conv)
  then show ?thesis
    unfolding d_S_def by (intro degree_quicksum_one) auto
qed

text \<open>
  The body of the density indicator of the max-community entry points is quadratic, so
  the call raises on every graph with two vertices or more.
\<close>

lemma pds_indicator_raises:
  assumes "2 \<le> n"
  shows "addGenConstrIndicator nm v b (Mul (d_S A n u) (complement_size n)) s r m = Inl TypeError"
  using assms by (simp add: addGenConstrIndicator_def degree_d_S degree_complement_size)

lemma add_pds_constraints_raises:
  assumes "2 \<le> n" and "us \<noteq> []"
  shows "add_pds_constraints A n us m = Inl TypeError"
  using assms by (cases us) (simp_all add: pds_indicator_raises)

lemma max_community_model_raises:
  assumes "2 \<le> shape0 A"
  shows "max_community_model A = Inl TypeError"
  using assms by (simp add: max_community_model_def Let_def add_pds_constraints_raises)

lemma connected_max_community_model_raises:
  assumes "2 \<le> shape0 A"
  shows "connected_max_community_model A = Inl TypeError"
  using assms by (simp add: connected_max_community_model_def Let_def add_pds_constraints_raises)

text \<open>The indicators of the k-community models are linear: the call accepts each of them.\<close>

lemma density_indicator_accepted:
  "addGenConstrIndicator (''CpwrtCq_'' @ str_nat i @ ''_'' @ str_nat p @ ''_'' @ str_nat q)
     (Xv [i, p]) 1 (N_C A n i p q) GE (Sub (N_Cprime A n i p q) (correction A n i q)) m =
   Inr (m\<lparr>constrs := constrs m @ [density_constraint A n i p q]\<rparr>)"
proof -
  have "degree (N_C A n i p q) \<le> 1" "degree (N_Cprime A n i p q) \<le> 1"
    "degree (correction A n i q) \<le> 1"
    unfolding N_C_def N_Cprime_def correction_def
    by (intro degree_quicksum_le; auto intro!: degree_quicksum_le)+
  then show ?thesis
    by (simp add: addGenConstrIndicator_def density_constraint_def)
qed

text \<open>
  What the two max-community entry points do, for every matrix and every solver: they
  never reach \<open>model.optimize()\<close>.
\<close>

lemma find_max_community_run:
  "find_max_community solve A =
     (if shape0 A \<noteq> shape1 A then (Inl (AssertionError ''Adjacency matrix must be square.''), [])
      else if \<not> is_symmetric A
        then (Inl (AssertionError ''Adjacency matrix must be symmetric.''), [])
      else if shape0 A < 3 then (Inr (Message ''Graph has less than 3 vertices.''), [])
      else (Inl TypeError, []))"
  by (simp add: find_max_community_def Let_def max_community_model_raises)

lemma find_connected_max_community_run:
  "find_connected_max_community solve A =
     (if shape0 A \<noteq> shape1 A then (Inl (AssertionError ''Adjacency matrix must be square.''), [])
      else if \<not> is_symmetric A
        then (Inl (AssertionError ''Adjacency matrix must be symmetric.''), [])
      else if shape0 A < 3 then (Inr (Message ''Graph has less than 3 vertices.''), [])
      else (Inl TypeError, []))"
  by (simp add: find_connected_max_community_def Let_def connected_max_community_model_raises)

section \<open>The max-community entry point\<close>

lemma K4_shape: "shape0 K4 = 4 \<and> shape1 K4 = 4"
  by (simp add: K4_def shape0_def shape1_def)

lemma K4_symmetric: "is_symmetric K4"
  by (simp add: is_symmetric_def K4_def shape0_def shape1_def entry_def upt_rec)

lemma G5_shape: "shape0 two_edges_and_a_vertex = 5 \<and> shape1 two_edges_and_a_vertex = 5"
  by (simp add: two_edges_and_a_vertex_def shape0_def shape1_def)

lemma G5_symmetric: "is_symmetric two_edges_and_a_vertex"
  by (simp add: is_symmetric_def two_edges_and_a_vertex_def shape0_def shape1_def entry_def upt_rec)

text \<open>
  Claim C5. The specification states, of every dictionary that \<open>find_max_community\<close>
  returns, that \<open>2 \<le> size \<le> n - 1\<close> and that every member satisfies the density
  inequality. The entry point returns no dictionary at all: on every square symmetric
  matrix with \<open>n \<ge> 3\<close> its first density indicator, whose body is a product of two
  linear expressions, is refused by \<open>addGenConstrIndicator\<close>, so the call ends with
  \<open>TypeError\<close> and submits no model; on every other input it raises the assertion
  error or returns the size message.
\<close>

theorem C5_find_max_community_raises:
  "(shape0 A = shape1 A \<and> is_symmetric A \<and> 3 \<le> shape0 A \<longrightarrow>
      find_max_community solve A = (Inl TypeError, [])) \<and>
   fst (find_max_community solve A) \<noteq> Inr (PDS_dict S sz)"
  by (simp add: find_max_community_run)

theorem C5_find_max_community_raises_witness:
  "shape0 K4 = shape1 K4 \<and> is_symmetric K4 \<and> 3 \<le> shape0 K4 \<and>
   find_max_community (answering OPTIMAL (chosen [0, 1, 2])) K4 = (Inl TypeError, []) \<and>
   fst (find_max_community (answering OPTIMAL (chosen [0, 1, 2])) K4) \<noteq> Inr (PDS_dict [0, 1, 2] 3)"
  using C5_find_max_community_raises [of K4 "answering OPTIMAL (chosen [0, 1, 2])" "[0, 1, 2]" 3]
    K4_shape K4_symmetric
  by simp

text \<open>
  Claim C2. For the triangle the specification expects all three vertices, with size 3.
  \<open>find_max_community\<close> raises \<open>TypeError\<close> on the triangle and submits no
  model, whatever the solver, so it does not return them. The two size constraints it
  added before the failing call would in any case bound the set by \<open>n - 1 = 2\<close>.
\<close>

theorem C2_triangle_raises:
  "find_max_community solve triangle = (Inl TypeError, []) \<and>
   fst (find_max_community solve triangle) \<noteq> Inr (PDS_dict [0, 1, 2] 3) \<and>
   (list_all (holds a) (size_constraints 3) \<longrightarrow> a (Xv [0]) + a (Xv [1]) + a (Xv [2]) \<le> 2)"
  using triangle_symmetric
  by (simp add: find_max_community_run triangle_shape size_constraints_def quicksum_def upt_rec
        numeral_2_eq_2)

theorem C2_triangle_raises_witness:
  "find_max_community (answering OPTIMAL (chosen [0, 1, 2])) triangle = (Inl TypeError, []) \<and>
   list_all (holds (chosen [0, 1])) (size_constraints 3) \<and>
   chosen [0, 1] (Xv [0]) + chosen [0, 1] (Xv [1]) + chosen [0, 1] (Xv [2]) \<le> 2 \<and>
   \<not> list_all (holds (chosen [0, 1, 2])) (size_constraints 3)"
  using C2_triangle_raises [of "answering OPTIMAL (chosen [0, 1, 2])" "chosen [0, 1]"]
  by (simp add: size_constraints_def quicksum_def upt_rec)

section \<open>The connected entry points\<close>

text \<open>
  The flow block of \<open>find_connected_max_community\<close> has no supply or demand: with
  all flows 0 it holds for every set that contains the root.
\<close>

lemma chosen_flow: "chosen S (Fv is) = 0"
  by (cases "is") simp_all

lemma eval_flow_sum: "eval (chosen S) (quicksum (map (\<lambda>j. Ref (Fv (g j))) js)) = 0"
  by (induction js) (simp_all add: quicksum_def chosen_flow)

lemma chosen_nonneg: "0 \<le> chosen S (Xv is)"
  by (cases "is" rule: list.exhaust; cases "tl is") auto

lemma zero_flow_satisfies_connectivity:
  assumes "0 \<in> set S"
  shows "list_all (holds (chosen S)) (connectivity_constraints A n)"
  using assms
  by (auto simp: connectivity_constraints_def Let_def list_all_iff flow_conservation_def
        flow_capacity_def eval_flow_sum chosen_flow chosen_nonneg)

lemma G5_reachable:
  "v \<in> reachable two_edges_and_a_vertex [0, 1, 2, 3] 0 \<Longrightarrow> v = 0 \<or> v = 1"
  by (induction rule: reachable.induct)
     (auto simp: two_edges_and_a_vertex_def entry_def)

lemma G5_disconnected: "\<not> connected_from two_edges_and_a_vertex [0, 1, 2, 3] 0"
proof
  assume "connected_from two_edges_and_a_vertex [0, 1, 2, 3] 0"
  then have "2 \<in> reachable two_edges_and_a_vertex [0, 1, 2, 3] 0"
    by (auto simp: connected_from_def)
  then show False using G5_reachable by fastforce
qed

lemma connected_k_never_mapping:
  assumes "sound_run (connected_k_community_model A (nat k))
                     (solve (connected_k_community_model A (nat k)))"
  shows "fst (find_connected_k_community solve A k) \<noteq> Inr (Communities_dict cs)"
proof
  let ?m = "connected_k_community_model A (nat k)"
  assume r: "fst (find_connected_k_community solve A k) = Inr (Communities_dict cs)"
  then have n4: "4 \<le> shape0 A" and k2: "2 \<le> k"
    and ex: "\<exists>a. snd (solve ?m) = Some a"
    by (auto simp: find_connected_k_community_def Let_def split: if_splits option.splits)
  then obtain a where "snd (solve ?m) = Some a" by blast
  then have "feasible ?m a" using assms by (simp add: sound_run_def)
  then show False using connected_k_infeasible [of "nat k" A a] n4 k2 by simp
qed

text \<open>
  Claim C1. The specification states that every community a connected variant returns
  is connected from the root. No connected variant returns a community:
  \<open>find_connected_max_community\<close> never returns a dictionary (it raises
  \<open>TypeError\<close> on every square symmetric matrix with \<open>n \<ge> 3\<close>), and
  \<open>find_connected_k_community\<close> never returns a mapping after a sound solver run.
  Nor does the flow block certify reachability: on the graph with the edges 0-1 and 2-3
  and the isolated vertex 4 it is satisfied, with all flows 0, by the set
  \<open>{0, 1, 2, 3}\<close>, which is not connected from vertex 0.
\<close>

theorem C1_connected_variants_return_nothing:
  assumes "sound_run (connected_k_community_model A (nat k))
                     (solve (connected_k_community_model A (nat k)))"
  shows "fst (find_connected_max_community solve A) \<noteq> Inr (Community_dict S sz) \<and>
         fst (find_connected_k_community solve A k) \<noteq> Inr (Communities_dict cs) \<and>
         (shape0 A = shape1 A \<and> is_symmetric A \<and> 3 \<le> shape0 A \<longrightarrow>
            find_connected_max_community solve A = (Inl TypeError, [])) \<and>
         list_all (holds (chosen [0, 1, 2, 3])) (connectivity_constraints two_edges_and_a_vertex 5) \<and>
         \<not> connected_from two_edges_and_a_vertex [0, 1, 2, 3] 0"
  using connected_k_never_mapping [where solve = solve and A = A and k = k and cs = cs, OF assms]
    zero_flow_satisfies_connectivity [of "[0, 1, 2, 3]"]
    G5_disconnected
  by (simp add: find_connected_max_community_run)

theorem C1_connected_variants_return_nothing_witness:
  "sound_run (connected_k_community_model K4 (nat 2))
     (reporting INFEASIBLE (connected_k_community_model K4 (nat 2))) \<and>
   shape0 K4 = shape1 K4 \<and> is_symmetric K4 \<and> 3 \<le> shape0 K4 \<and>
   find_connected_max_community (reporting INFEASIBLE) K4 = (Inl TypeError, []) \<and>
   fst (find_connected_k_community (reporting INFEASIBLE) K4 2)
     \<noteq> Inr (Communities_dict [(1, [0, 1]), (2, [2, 3])])"
proof -
  have snd: "sound_run (connected_k_community_model K4 (nat 2))
     (reporting INFEASIBLE (connected_k_community_model K4 (nat 2)))"
    using connected_k_infeasible [of 2 K4]
    by (simp add: sound_run_def reporting_def K4_shape)
  show ?thesis
    using C1_connected_variants_return_nothing [of K4 2 "reporting INFEASIBLE", OF snd,
            of "[]" 0 "[(1, [0, 1]), (2, [2, 3])]"] snd K4_shape K4_symmetric
    by simp
qed

end
